theory Spec2Isabelle
  imports Main "HOL-Library.Word" "HOL-Library.Multiset"
begin

section \<open>The shopping-list backend: data model\<close>

text \<open>
  The table \<^verbatim>\<open>shopping_items\<close> as the PHP handlers see it. A row has the nine columns
  every \<^verbatim>\<open>SELECT\<close> of the handlers reads, plus the owner \<^verbatim>\<open>user_id\<close>. Timestamps
  (\<^verbatim>\<open>NOW()\<close>) are seconds as natural numbers; a column that is \<^verbatim>\<open>NULL\<close> is \<open>None\<close>.
  Columns that an \<^verbatim>\<open>INSERT\<close> does not name (\<^verbatim>\<open>completed_at\<close>, \<^verbatim>\<open>updated_at\<close>) start as
  \<^verbatim>\<open>NULL\<close>.
\<close>

record item =
  item_id :: nat
  item_text :: string
  quantity :: int
  item_unit :: string
  description :: string
  completed :: bool
  added_at :: nat
  completed_at :: "nat option"
  updated_at :: "nat option"

record row =
  user_id :: nat
  cols :: item

text \<open>
  The database: the rows of the table in insertion order and the \<^verbatim>\<open>AUTO_INCREMENT\<close>
  counter that \<^verbatim>\<open>lastInsertId()\<close> reads.
\<close>

record db =
  rows :: "row list"
  next_id :: nat

text \<open>The counter of a well-formed table lies above every identifier in use.\<close>

definition db_ok :: "db \<Rightarrow> bool" where
  "db_ok d = list_all (\<lambda>r. item_id (cols r) < next_id d) (rows d)"

text \<open>
  The decoded JSON object of an add, update or replace request. A key that is absent (or
  \<^verbatim>\<open>null\<close>: PHP's \<^verbatim>\<open>??\<close> and \<^verbatim>\<open>isset\<close> treat both alike) is \<open>None\<close>; a key that is present
  carries the JSON type the API documents (string, integer, boolean). A quantity is the
  integer PHP holds after \<^verbatim>\<open>json_decode\<close>, a 64-bit machine integer read as signed.
\<close>

record item_data =
  d_text :: "string option"
  d_quantity :: "64 word option"
  d_unit :: "string option"
  d_description :: "string option"
  d_completed :: "bool option"

text \<open>The JSON bodies \<^verbatim>\<open>sendJsonResponse\<close> writes, and the response with its status.\<close>

datatype body =
    Error string
  | Message string
  | Deleted nat
  | ItemBody item
  | ItemsBody "item list"
  | CompletedOnly bool
  | LoginBody nat string
  | RegisterBody nat string

datatype response = Response nat body

fun status :: "response \<Rightarrow> nat" where
  "status (Response s b) = s"

text \<open>
  PHP's \<^verbatim>\<open>trim\<close> strips space, tab, line feed, carriage return, NUL and vertical tab from
  both ends; \<^verbatim>\<open>empty\<close> on a string holds of the empty string and of \<^verbatim>\<open>"0"\<close>.
\<close>

definition trim_char :: "char \<Rightarrow> bool" where
  "trim_char c = (c \<in> set [CHR 0x20, CHR 0x09, CHR 0x0A, CHR 0x0D, CHR 0x00, CHR 0x0B])"

definition php_trim :: "string \<Rightarrow> string" where
  "php_trim s = rev (dropWhile trim_char (rev (dropWhile trim_char s)))"

definition php_empty :: "string \<Rightarrow> bool" where
  "php_empty s = (s = [] \<or> s = ''0'')"

text \<open>\<^verbatim>\<open>intval\<close> of a PHP integer is that integer.\<close>

definition intval :: "64 word \<Rightarrow> int" where
  "intval q = sint q"

text \<open>\<^verbatim>\<open>$x ?? d\<close>\<close>

fun coalesce :: "'a option \<Rightarrow> 'a \<Rightarrow> 'a" where
  "coalesce None d = d"
| "coalesce (Some x) d = x"

text \<open>
  A failure of the database layer: \<open>Some (k, m)\<close> makes the \<open>k\<close>-th \<^verbatim>\<open>execute()\<close> of the
  request (counted from 0) throw a \<^verbatim>\<open>PDOException\<close> with message \<open>m\<close>; \<open>None\<close> is a healthy
  database.
\<close>

type_synonym fault = "(nat \<times> string) option"

fun throws :: "fault \<Rightarrow> nat \<Rightarrow> string option" where
  "throws None k = None"
| "throws (Some (j, m)) k = (if j = k then Some m else None)"

text \<open>The outer \<^verbatim>\<open>catch (PDOException $e)\<close> of the items handlers and of the register script:
  the message is logged and the answer is a fixed text.\<close>

definition caught_pdo :: "string \<Rightarrow> response" where
  "caught_pdo m = Response 500 (Error ''Database error occurred'')"

section \<open>\<^verbatim>\<open>items.php\<close>: add an item (POST)\<close>

definition insert_item ::
  "nat \<Rightarrow> nat \<Rightarrow> string \<Rightarrow> int \<Rightarrow> string \<Rightarrow> string \<Rightarrow> bool \<Rightarrow> db \<Rightarrow> db" where
  "insert_item uid now t q u dsc c d =
     d\<lparr>rows := rows d @
          [\<lparr>user_id = uid,
            cols = \<lparr>item_id = next_id d, item_text = t, quantity = q, item_unit = u,
                    description = dsc, completed = c, added_at = now,
                    completed_at = None, updated_at = None\<rparr>\<rparr>],
        next_id := Suc (next_id d)\<rparr>"

text \<open>\<^verbatim>\<open>SELECT ... WHERE id = :id\<close> followed by \<^verbatim>\<open>fetch()\<close>: the first matching row.\<close>

definition select_by_id :: "nat \<Rightarrow> db \<Rightarrow> item option" where
  "select_by_id i d = map_option cols (find (\<lambda>r. item_id (cols r) = i) (rows d))"

text \<open>
  The POST case. The body is \<open>None\<close> when \<^verbatim>\<open>json_decode\<close> reports an error. The first
  \<^verbatim>\<open>execute()\<close> is the \<^verbatim>\<open>INSERT\<close>, the second the \<^verbatim>\<open>SELECT\<close> of the new row. Where that
  \<^verbatim>\<open>SELECT\<close> finds no row, \<^verbatim>\<open>fetch()\<close> gives \<^verbatim>\<open>false\<close> and the assignment
  \<^verbatim>\<open>$item['completed'] = (bool)$item['completed']\<close> turns it into an array with that one key.
\<close>

definition add_item :: "nat \<Rightarrow> nat \<Rightarrow> fault \<Rightarrow> item_data option \<Rightarrow> db \<Rightarrow> response \<times> db" where
  "add_item uid now f req d =
     (case req of
        None \<Rightarrow> (Response 400 (Error ''Invalid JSON data''), d)
      | Some dat \<Rightarrow>
          let t = php_trim (coalesce (d_text dat) []);
              q = intval (coalesce (d_quantity dat) 1);
              u = coalesce (d_unit dat) ''szt'';
              dsc = php_trim (coalesce (d_description dat) []);
              c = coalesce (d_completed dat) False
          in if php_empty t then (Response 400 (Error ''Item text is required''), d)
             else if q < 1 then (Response 400 (Error ''Quantity must be at least 1''), d)
             else (case throws f 0 of
                     Some m \<Rightarrow> (caught_pdo m, d)
                   | None \<Rightarrow>
                       let d' = insert_item uid now t q u dsc c d in
                       (case throws f 1 of
                          Some m \<Rightarrow> (caught_pdo m, d')
                        | None \<Rightarrow>
                            (case select_by_id (next_id d) d' of
                               Some it \<Rightarrow> (Response 201 (ItemBody it), d')
                             | None \<Rightarrow> (Response 201 (CompletedOnly False), d')))))"


section \<open>\<^verbatim>\<open>items.php\<close>: list the items (GET)\<close>

text \<open>
  \<^verbatim>\<open>ORDER BY completed, added_at DESC\<close>: \<open>a\<close> may stand before \<open>b\<close> when it is incomplete
  and \<open>b\<close> complete, or when both agree on \<^verbatim>\<open>completed\<close> and \<open>a\<close> was not added earlier
  than \<open>b\<close>. Rows that tie keep their table order.
\<close>

definition order_before :: "item \<Rightarrow> item \<Rightarrow> bool" where
  "order_before a b =
     (if completed a = completed b then added_at b \<le> added_at a else completed b)"

fun order_insert :: "item \<Rightarrow> item list \<Rightarrow> item list" where
  "order_insert x [] = [x]"
| "order_insert x (y # ys) =
     (if order_before x y then x # y # ys else y # order_insert x ys)"

fun order_by :: "item list \<Rightarrow> item list" where
  "order_by [] = []"
| "order_by (x # xs) = order_insert x (order_by xs)"

definition owned_by :: "nat \<Rightarrow> row \<Rightarrow> bool" where
  "owned_by uid r = (user_id r = uid)"

definition get_items :: "nat \<Rightarrow> fault \<Rightarrow> db \<Rightarrow> response \<times> db" where
  "get_items uid f d =
     (case throws f 0 of
        Some m \<Rightarrow> (caught_pdo m, d)
      | None \<Rightarrow>
          (Response 200 (ItemsBody (order_by (map cols (filter (owned_by uid) (rows d))))), d))"

section \<open>\<^verbatim>\<open>items.php\<close>: update an item (PUT)\<close>

text \<open>
  The \<^verbatim>\<open>SET\<close> list that the handler builds from the keys present in the body, applied to
  one row: each present field, \<^verbatim>\<open>completed_at\<close> together with \<^verbatim>\<open>completed\<close>, and
  \<^verbatim>\<open>updated_at = NOW()\<close> last.
\<close>

definition apply_update :: "nat \<Rightarrow> item_data \<Rightarrow> item \<Rightarrow> item" where
  "apply_update now dat it =
     (let it1 = (case d_text dat of None \<Rightarrow> it | Some t \<Rightarrow> it\<lparr>item_text := php_trim t\<rparr>);
          it2 = (case d_quantity dat of None \<Rightarrow> it1
                 | Some q \<Rightarrow> it1\<lparr>quantity := intval q\<rparr>);
          it3 = (case d_unit dat of None \<Rightarrow> it2 | Some u \<Rightarrow> it2\<lparr>item_unit := u\<rparr>);
          it4 = (case d_description dat of None \<Rightarrow> it3
                 | Some s \<Rightarrow> it3\<lparr>description := php_trim s\<rparr>);
          it5 = (case d_completed dat of None \<Rightarrow> it4
                 | Some c \<Rightarrow> it4\<lparr>completed := c,
                                 completed_at := (if c then Some now else None)\<rparr>)
      in it5\<lparr>updated_at := Some now\<rparr>)"

definition no_fields :: "item_data \<Rightarrow> bool" where
  "no_fields dat =
     (d_text dat = None \<and> d_quantity dat = None \<and> d_unit dat = None \<and>
      d_description dat = None \<and> d_completed dat = None)"

definition is_row :: "nat \<Rightarrow> row \<Rightarrow> bool" where
  "is_row i r = (item_id (cols r) = i)"

definition is_own_row :: "nat \<Rightarrow> nat \<Rightarrow> row \<Rightarrow> bool" where
  "is_own_row i uid r = (item_id (cols r) = i \<and> user_id r = uid)"

text \<open>
  The PUT case of \<^verbatim>\<open>items.php\<close>. The identifier is the \<^verbatim>\<open>id\<close> query parameter (numeric when
  present; \<^verbatim>\<open>!$itemId\<close> holds when it is missing or \<^verbatim>\<open>"0"\<close>). The first \<^verbatim>\<open>execute()\<close> is
  the ownership \<^verbatim>\<open>SELECT\<close>, the second the
  \<^verbatim>\<open>UPDATE ... WHERE id = :id\<close>. \<open>update_fields\<close> is the part of the case after the
  ownership check: the field checks in the order of the source, then the statement.
\<close>

definition update_fields ::
  "nat \<Rightarrow> nat \<Rightarrow> fault \<Rightarrow> nat \<Rightarrow> item_data \<Rightarrow> db \<Rightarrow> response \<times> db" where
  "update_fields uid now f i dat d =
     (if (case d_text dat of None \<Rightarrow> False | Some t \<Rightarrow> php_empty (php_trim t))
      then (Response 400 (Error ''Item text cannot be empty''), d)
      else if (case d_quantity dat of None \<Rightarrow> False | Some q \<Rightarrow> intval q < 1)
      then (Response 400 (Error ''Quantity must be at least 1''), d)
      else if no_fields dat
      then (Response 400 (Error ''No fields to update''), d)
      else (case throws f 1 of
              Some m \<Rightarrow> (caught_pdo m, d)
            | None \<Rightarrow>
                (Response 200 (Message ''Item updated successfully''),
                 d\<lparr>rows := map (\<lambda>r. if is_row i r
                                     then r\<lparr>cols := apply_update now dat (cols r)\<rparr>
                                     else r) (rows d)\<rparr>)))"

definition update_item ::
  "nat \<Rightarrow> nat \<Rightarrow> fault \<Rightarrow> nat option \<Rightarrow> item_data option \<Rightarrow> db \<Rightarrow> response \<times> db" where
  "update_item uid now f idp req d =
     (case idp of
        None \<Rightarrow> (Response 400 (Error ''Valid item ID is required''), d)
      | Some i \<Rightarrow>
          (if i = 0 then (Response 400 (Error ''Valid item ID is required''), d)
           else (case req of
                   None \<Rightarrow> (Response 400 (Error ''Invalid JSON data''), d)
                 | Some dat \<Rightarrow>
                     (case throws f 0 of
                        Some m \<Rightarrow> (caught_pdo m, d)
                      | None \<Rightarrow>
                          (if \<not> list_ex (is_own_row i uid) (rows d)
                           then (Response 404 (Error ''Item not found''), d)
                           else update_fields uid now f i dat d)))))"

section \<open>The second items handler (\<^verbatim>\<open>unnamed/part_000\<close>): single update and replace (PUT)\<close>

text \<open>
  The single-item branch \<^verbatim>\<open>if ($itemId)\<close> of the second handler. It copies the keys
  \<^verbatim>\<open>text, quantity, unit, description, completed\<close> of the decoded body into one
  \<^verbatim>\<open>UPDATE shopping_items SET updated_at = NOW(), k1 = ?, ... WHERE id = ? AND user_id = ?\<close>
  and answers 404 when \<^verbatim>\<open>rowCount()\<close> is 0 (taken as the number of rows matched). With no
  key present the statement text is malformed and the database layer throws.
\<close>

definition set_columns :: "nat \<Rightarrow> item_data \<Rightarrow> item \<Rightarrow> item" where
  "set_columns now dat it =
     (let it0 = it\<lparr>updated_at := Some now\<rparr>;
          it1 = (case d_text dat of None \<Rightarrow> it0 | Some t \<Rightarrow> it0\<lparr>item_text := t\<rparr>);
          it2 = (case d_quantity dat of None \<Rightarrow> it1 | Some q \<Rightarrow> it1\<lparr>quantity := sint q\<rparr>);
          it3 = (case d_unit dat of None \<Rightarrow> it2 | Some u \<Rightarrow> it2\<lparr>item_unit := u\<rparr>);
          it4 = (case d_description dat of None \<Rightarrow> it3 | Some s \<Rightarrow> it3\<lparr>description := s\<rparr>)
      in (case d_completed dat of None \<Rightarrow> it4 | Some c \<Rightarrow> it4\<lparr>completed := c\<rparr>))"

definition put_single ::
  "nat \<Rightarrow> nat \<Rightarrow> fault \<Rightarrow> nat \<Rightarrow> item_data \<Rightarrow> db \<Rightarrow> response \<times> db" where
  "put_single uid now f i dat d =
     (if no_fields dat then (caught_pdo ''SQLSTATE[42000]: Syntax error'', d)
      else (case throws f 0 of
              Some m \<Rightarrow> (caught_pdo m, d)
            | None \<Rightarrow>
                (if \<not> list_ex (is_own_row i uid) (rows d)
                 then (Response 404 (Error ''Item not found''), d)
                 else (Response 200 (Message ''Item updated successfully''),
                       d\<lparr>rows := map (\<lambda>r. if is_own_row i uid r
                                           then r\<lparr>cols := set_columns now dat (cols r)\<rparr>
                                           else r) (rows d)\<rparr>))))"


text \<open>
  The branch \<^verbatim>\<open>elseif ($action === 'replace')\<close>. Every item is checked before the
  transaction starts; \<^verbatim>\<open>sendJsonResponse\<close> ends the script at the first item that fails.
\<close>

definition validUnits :: "string list" where
  "validUnits = [''szt'', ''kg'', ''g'', ''l'', ''ml'', ''opak'', ''inna'']"

definition validate_item :: "item_data \<Rightarrow> string option" where
  "validate_item it =
     (let t = php_trim (coalesce (d_text it) []);
          q = intval (coalesce (d_quantity it) 1)
      in if php_empty t then Some ''Item text is required for all items''
         else if q < 1 then Some ''Quantity must be at least 1 for all items''
         else if coalesce (d_unit it) [] \<notin> set validUnits
         then Some ''Invalid unit for one or more items''
         else None)"

fun validate_items :: "item_data list \<Rightarrow> string option" where
  "validate_items [] = None"
| "validate_items (it # its) =
     (case validate_item it of Some e \<Rightarrow> Some e | None \<Rightarrow> validate_items its)"

text \<open>\<^verbatim>\<open>DELETE FROM shopping_items WHERE user_id = :user_id\<close>\<close>

definition delete_user_rows :: "nat \<Rightarrow> db \<Rightarrow> db" where
  "delete_user_rows uid d = d\<lparr>rows := filter (\<lambda>r. \<not> owned_by uid r) (rows d)\<rparr>"

text \<open>
  One bound \<^verbatim>\<open>INSERT\<close> of the loop: \<^verbatim>\<open>trim($item['text'])\<close>, \<^verbatim>\<open>intval($item['quantity'])\<close>
  (0 for a missing key), \<^verbatim>\<open>$item['unit'] ?? 'szt'\<close>, \<^verbatim>\<open>trim($item['description'] ?? '')\<close>,
  \<^verbatim>\<open>boolval($item['completed'] ?? false)\<close>.
\<close>

definition insert_supplied :: "nat \<Rightarrow> nat \<Rightarrow> item_data \<Rightarrow> db \<Rightarrow> db" where
  "insert_supplied uid now it d =
     insert_item uid now (php_trim (coalesce (d_text it) []))
       (intval (coalesce (d_quantity it) 0))
       (coalesce (d_unit it) ''szt'') (php_trim (coalesce (d_description it) []))
       (coalesce (d_completed it) False) d"

text \<open>The insert loop; \<open>k\<close> counts the \<^verbatim>\<open>execute()\<close> calls. \<open>Inl m\<close> is the exception.\<close>

fun insert_all :: "nat \<Rightarrow> nat \<Rightarrow> fault \<Rightarrow> nat \<Rightarrow> item_data list \<Rightarrow> db \<Rightarrow> string + db" where
  "insert_all uid now f k [] d = Inr d"
| "insert_all uid now f k (it # its) d =
     (case throws f k of
        Some m \<Rightarrow> Inl m
      | None \<Rightarrow> insert_all uid now f (Suc k) its (insert_supplied uid now it d))"

text \<open>
  The inner \<^verbatim>\<open>catch (Exception $e)\<close>: \<^verbatim>\<open>rollBack()\<close> puts the table back as it was when the
  transaction began, and the exception's message goes into the response.
\<close>

definition replace_failed :: "string \<Rightarrow> response" where
  "replace_failed m = Response 500 (Error (''Failed to replace list: '' @ m))"

record replace_data =
  d_items :: "item_data list option"

definition replace_list ::
  "nat \<Rightarrow> nat \<Rightarrow> fault \<Rightarrow> replace_data option \<Rightarrow> db \<Rightarrow> response \<times> db" where
  "replace_list uid now f req d =
     (case req of
        None \<Rightarrow> (Response 400 (Error ''Invalid JSON data''), d)
      | Some dat \<Rightarrow>
          let its = coalesce (d_items dat) [] in
          (case validate_items its of
             Some e \<Rightarrow> (Response 400 (Error e), d)
           | None \<Rightarrow>
               (case throws f 0 of
                  Some m \<Rightarrow> (replace_failed m, d)
                | None \<Rightarrow>
                    (case insert_all uid now f 1 its (delete_user_rows uid d) of
                       Inl m \<Rightarrow> (replace_failed m, d)
                     | Inr d' \<Rightarrow> (Response 200 (Message ''List replaced successfully''), d')))))"

section \<open>Both items handlers: delete (DELETE)\<close>

text \<open>
  The DELETE case, the same in both handlers: a single delete when the \<^verbatim>\<open>id\<close> query
  parameter is there and is not \<^verbatim>\<open>"0"\<close>, a bulk action otherwise. \<open>Deleted n\<close> stands for
  the message \<^verbatim>\<open>"{$deletedCount} items deleted successfully"\<close>.
\<close>

definition delete_single :: "nat \<Rightarrow> fault \<Rightarrow> nat \<Rightarrow> db \<Rightarrow> response \<times> db" where
  "delete_single uid f i d =
     (case throws f 0 of
        Some m \<Rightarrow> (caught_pdo m, d)
      | None \<Rightarrow>
          (if \<not> list_ex (is_own_row i uid) (rows d)
           then (Response 404 (Error ''Item not found''), d)
           else (Response 200 (Message ''Item deleted successfully''),
                 d\<lparr>rows := filter (\<lambda>r. \<not> is_own_row i uid r) (rows d)\<rparr>)))"

definition delete_bulk :: "nat \<Rightarrow> fault \<Rightarrow> string option \<Rightarrow> db \<Rightarrow> response \<times> db" where
  "delete_bulk uid f action d =
     (if action = Some ''remove_checked'' then
        (case throws f 0 of
           Some m \<Rightarrow> (caught_pdo m, d)
         | None \<Rightarrow>
             (Response 200
                (Deleted (length (filter (\<lambda>r. owned_by uid r \<and> completed (cols r)) (rows d)))),
              d\<lparr>rows := filter (\<lambda>r. \<not> (owned_by uid r \<and> completed (cols r))) (rows d)\<rparr>))
      else if action = Some ''clear'' then
        (case throws f 0 of
           Some m \<Rightarrow> (caught_pdo m, d)
         | None \<Rightarrow>
             (Response 200 (Deleted (length (filter (owned_by uid) (rows d)))),
              delete_user_rows uid d))
      else (Response 400 (Error ''Invalid delete action''), d))"

definition delete_items ::
  "nat \<Rightarrow> fault \<Rightarrow> nat option \<Rightarrow> string option \<Rightarrow> db \<Rightarrow> response \<times> db" where
  "delete_items uid f idp action d =
     (case idp of
        None \<Rightarrow> delete_bulk uid f action d
      | Some i \<Rightarrow> (if i = 0 then delete_bulk uid f action d else delete_single uid f i d))"

section \<open>\<^verbatim>\<open>login.php\<close>\<close>

record user =
  u_id :: nat
  username :: string
  password :: string

record credentials =
  c_username :: "string option"
  c_password :: "string option"

text \<open>
  The session is the pair \<^verbatim>\<open>$_SESSION['user_id']\<close>, \<^verbatim>\<open>$_SESSION['username']\<close> when set.
  \<open>verify\<close> is the platform's \<^verbatim>\<open>password_verify\<close>. The decoded body is \<open>None\<close> when
  \<^verbatim>\<open>json_decode\<close> fails (the script does not test for it, and \<^verbatim>\<open>??\<close> then supplies the
  defaults). The only \<^verbatim>\<open>execute()\<close> is the \<^verbatim>\<open>SELECT\<close> of the user. \<open>LoginBody i n\<close> stands
  for the success body with \<^verbatim>\<open>user_id\<close> \<open>i\<close> and \<^verbatim>\<open>username\<close> \<open>n\<close>.
\<close>

definition login ::
  "(string \<Rightarrow> string \<Rightarrow> bool) \<Rightarrow> bool \<Rightarrow> fault \<Rightarrow> credentials option \<Rightarrow> user list \<Rightarrow>
     (nat \<times> string) option \<Rightarrow> response \<times> (nat \<times> string) option" where
  "login verify is_post f req users sess =
     (if \<not> is_post then (Response 405 (Error ''Invalid request method''), sess)
      else
        let name = php_trim (coalesce (case req of None \<Rightarrow> None | Some c \<Rightarrow> c_username c) []);
            pw = coalesce (case req of None \<Rightarrow> None | Some c \<Rightarrow> c_password c) []
        in if php_empty name \<or> php_empty pw
           then (Response 400 (Error ''Username and password are required''), sess)
           else (case throws f 0 of
                   Some m \<Rightarrow> (Response 500 (Error (''Database error: '' @ m)), sess)
                 | None \<Rightarrow>
                     (case find (\<lambda>u. username u = name) users of
                        None \<Rightarrow> (Response 401 (Error ''Invalid username or password''), sess)
                      | Some u \<Rightarrow>
                          if \<not> verify pw (password u)
                          then (Response 401 (Error ''Invalid username or password''), sess)
                          else (Response 200 (LoginBody (u_id u) (username u)),
                                Some (u_id u, username u)))))"


section \<open>The register script (\<^verbatim>\<open>unnamed/part_001\<close>)\<close>

text \<open>
  \<open>hash\<close> is the platform's \<^verbatim>\<open>password_hash\<close>, \<open>new_id\<close> the identifier the database gives
  the new user (\<^verbatim>\<open>lastInsertId()\<close>). \<^verbatim>\<open>strlen\<close> counts bytes. The first \<^verbatim>\<open>execute()\<close> is the
  \<^verbatim>\<open>SELECT\<close> for an existing name, the second the \<^verbatim>\<open>INSERT\<close>. The \<^verbatim>\<open>catch\<close> logs the
  exception and answers with a fixed text. \<open>RegisterBody i n\<close> stands for the success body
  with \<^verbatim>\<open>user_id\<close> \<open>i\<close> and \<^verbatim>\<open>username\<close> \<open>n\<close>.
\<close>

definition register ::
  "(string \<Rightarrow> string) \<Rightarrow> nat \<Rightarrow> bool \<Rightarrow> fault \<Rightarrow> credentials option \<Rightarrow> user list \<Rightarrow>
     (nat \<times> string) option \<Rightarrow> response \<times> user list \<times> (nat \<times> string) option" where
  "register hash new_id is_post f req users sess =
     (if \<not> is_post then (Response 405 (Error ''Invalid request method''), users, sess)
      else (case req of
        None \<Rightarrow> (Response 400 (Error ''Invalid JSON input''), users, sess)
      | Some c \<Rightarrow>
          let name = php_trim (coalesce (c_username c) []);
              pw = coalesce (c_password c) []
          in if php_empty name \<or> php_empty pw
             then (Response 400 (Error ''Username and password are required''), users, sess)
             else if length pw < 8
             then (Response 400 (Error ''Password must be at least 8 characters long''),
                   users, sess)
             else (case throws f 0 of
                     Some m \<Rightarrow> (caught_pdo m, users, sess)
                   | None \<Rightarrow>
                       (if list_ex (\<lambda>u. username u = name) users
                        then (Response 409 (Error ''Username already exists''), users, sess)
                        else (case throws f 1 of
                                Some m \<Rightarrow> (caught_pdo m, users, sess)
                              | None \<Rightarrow>
                                  (Response 200 (RegisterBody new_id name),
                                   users @ [\<lparr>u_id = new_id, username = name,
                                              password = hash pw\<rparr>],
                                   Some (new_id, name)))))))"

section \<open>\<^verbatim>\<open>lista.js\<close>: \<^verbatim>\<open>PasswordStrength.checkStrength\<close>\<close>

text \<open>
  A JavaScript string is a sequence of UTF-16 code units, and \<^verbatim>\<open>length\<close> counts them.
  \<open>js\<close> writes an ASCII literal as code units.
\<close>

type_synonym jsstring = "16 word list"

definition js :: "string \<Rightarrow> jsstring" where
  "js s = map (\<lambda>c. of_nat (of_char c)) s"

text \<open>The four regular expressions: \<^verbatim>\<open>/[a-z]/\<close>, \<^verbatim>\<open>/[A-Z]/\<close>, \<^verbatim>\<open>/[0-9]/\<close> and
  \<^verbatim>\<open>/[!,@,#,$,%,^,&,*,?,_,~]/\<close> (the commas are members of the class).\<close>

definition has_lowercase :: "jsstring \<Rightarrow> bool" where
  "has_lowercase p = list_ex (\<lambda>c. 0x61 \<le> c \<and> c \<le> 0x7A) p"

definition has_uppercase :: "jsstring \<Rightarrow> bool" where
  "has_uppercase p = list_ex (\<lambda>c. 0x41 \<le> c \<and> c \<le> 0x5A) p"

definition has_numbers :: "jsstring \<Rightarrow> bool" where
  "has_numbers p = list_ex (\<lambda>c. 0x30 \<le> c \<and> c \<le> 0x39) p"

definition special_class :: "16 word list" where
  "special_class = [0x21, 0x2C, 0x40, 0x23, 0x24, 0x25, 0x5E, 0x26, 0x2A, 0x3F, 0x5F, 0x7E]"

definition has_special :: "jsstring \<Rightarrow> bool" where
  "has_special p = list_ex (\<lambda>c. c \<in> set special_class) p"

record requirements =
  minLength :: nat
  hasLowercase :: bool
  hasUppercase :: bool
  hasNumbers :: bool
  hasSpecial :: bool

definition requirements_of :: "jsstring \<Rightarrow> requirements" where
  "requirements_of p =
     \<lparr>minLength = 8, hasLowercase = has_lowercase p, hasUppercase = has_uppercase p,
      hasNumbers = has_numbers p, hasSpecial = has_special p\<rparr>"

text \<open>The counter \<^verbatim>\<open>strength\<close> after the four checks.\<close>

definition score :: "jsstring \<Rightarrow> nat" where
  "score p =
     (let r = requirements_of p in
      (if minLength r \<le> length p then 1 else 0) +
      (if hasLowercase r \<and> hasUppercase r then 1 else 0) +
      (if hasNumbers r then 1 else 0) +
      (if hasSpecial r then 1 else 0))"

text \<open>The four messages pushed to \<^verbatim>\<open>feedback\<close> (Polish; the letters outside ASCII are
  written as their code units), and the message for a password that misses nothing.\<close>

definition msg_length :: jsstring where
  "msg_length =
     js ''Has'' @ [0x142] @ js ''o powinno mie'' @ [0x107] @ js '' co najmniej 8 znak'' @
     [0xF3] @ js ''w''"

definition msg_case :: jsstring where
  "msg_case = js ''Dodaj wielkie i ma'' @ [0x142] @ js ''e litery''"

definition msg_digits :: jsstring where
  "msg_digits = js ''Dodaj cyfry''"

definition msg_special :: jsstring where
  "msg_special = js ''Dodaj znaki specjalne (!@#$%^&*?_~)''"

definition msg_strong :: jsstring where
  "msg_strong = js ''Mocne has'' @ [0x142] @ js ''o!''"

definition complaints :: "jsstring \<Rightarrow> jsstring list" where
  "complaints p =
     (let r = requirements_of p in
      (if minLength r \<le> length p then [] else [msg_length]) @
      (if hasLowercase r \<and> hasUppercase r then [] else [msg_case]) @
      (if hasNumbers r then [] else [msg_digits]) @
      (if hasSpecial r then [] else [msg_special]))"

text \<open>\<^verbatim>\<open>Array.prototype.join\<close>\<close>

fun join :: "jsstring \<Rightarrow> jsstring list \<Rightarrow> jsstring" where
  "join sep [] = []"
| "join sep [x] = x"
| "join sep (x # y # ys) = x @ sep @ join sep (y # ys)"

definition strength_level :: "nat \<Rightarrow> jsstring" where
  "strength_level n =
     (if 4 \<le> n then js ''strong''
      else if 3 \<le> n then js ''medium''
      else if 2 \<le> n then js ''weak''
      else js ''very-weak'')"

record strength_result =
  strength :: jsstring
  feedback :: jsstring
  requirements :: requirements

definition checkStrength :: "jsstring \<Rightarrow> strength_result" where
  "checkStrength p =
     \<lparr>strength = strength_level (score p),
      feedback = (if 0 < length (complaints p) then join (js ''. '') (complaints p)
                  else msg_strong),
      requirements = requirements_of p\<rparr>"

section \<open>\<^verbatim>\<open>lista.js\<close>: \<^verbatim>\<open>SessionManager\<close>\<close>

text \<open>
  The entry \<^verbatim>\<open>saveSession\<close> writes, and the four storage slots the module uses:
  \<^verbatim>\<open>sessionStorage[SESSION_KEY]\<close>, \<^verbatim>\<open>localStorage[SESSION_KEY]\<close>, \<^verbatim>\<open>localStorage[USER_KEY]\<close>
  and \<^verbatim>\<open>localStorage[REMEMBER_ME_KEY]\<close>. A slot holds what \<^verbatim>\<open>JSON.parse\<close> gives back for
  it, \<open>None\<close> when the key is not there; the entries are those \<^verbatim>\<open>saveSession\<close> writes, and
  the storage takes every write (no quota exception). \<^verbatim>\<open>Date.now()\<close> is a count of
  milliseconds.
\<close>

record 'u session_data =
  user :: 'u
  timestamp :: int
  rememberMe :: bool

record 'u storage =
  session_slot :: "'u session_data option"
  local_slot :: "'u session_data option"
  local_user :: "'u option"
  local_remember :: "string option"

definition saveSession :: "int \<Rightarrow> 'u \<Rightarrow> bool \<Rightarrow> 'u storage \<Rightarrow> 'u storage" where
  "saveSession now userData remember st =
     (let sessionData = \<lparr>user = userData, timestamp = now, rememberMe = remember\<rparr>;
          st1 = (if remember
                 then st\<lparr>local_slot := Some sessionData, local_user := Some userData\<rparr>
                 else st\<lparr>session_slot := Some sessionData\<rparr>)
      in st1\<lparr>local_remember := Some (if remember then ''true'' else ''false'')\<rparr>)"

definition getSession :: "'u storage \<Rightarrow> 'u session_data option" where
  "getSession st =
     (case session_slot st of Some s \<Rightarrow> Some s | None \<Rightarrow> local_slot st)"

definition oneWeek :: int where
  "oneWeek = 7 * 24 * 60 * 60 * 1000"

definition isSessionValid :: "int \<Rightarrow> 'u storage \<Rightarrow> bool" where
  "isSessionValid now st =
     (case getSession st of
        None \<Rightarrow> False
      | Some s \<Rightarrow> (if rememberMe s then now - timestamp s < oneWeek else True))"


section \<open>Expected tables and sample data\<close>

text \<open>
  The rows a committed replace writes for the caller, one per supplied item in the order
  given, with consecutive new identifiers from \<open>n\<close> on.
\<close>

fun supplied_rows :: "nat \<Rightarrow> nat \<Rightarrow> nat \<Rightarrow> item_data list \<Rightarrow> row list" where
  "supplied_rows uid now n [] = []"
| "supplied_rows uid now n (it # its) =
     \<lparr>user_id = uid,
      cols = \<lparr>item_id = n, item_text = php_trim (coalesce (d_text it) []),
              quantity = intval (coalesce (d_quantity it) 0),
              item_unit = coalesce (d_unit it) ''szt'',
              description = php_trim (coalesce (d_description it) []),
              completed = coalesce (d_completed it) False, added_at = now,
              completed_at = None, updated_at = None\<rparr>\<rparr>
     # supplied_rows uid now (Suc n) its"

text \<open>The table after a committed replace: the other users' rows, then the new rows.\<close>

definition replaced :: "nat \<Rightarrow> nat \<Rightarrow> item_data list \<Rightarrow> db \<Rightarrow> db" where
  "replaced uid now its d =
     d\<lparr>rows := filter (\<lambda>r. user_id r \<noteq> uid) (rows d) @ supplied_rows uid now (next_id d) its,
       next_id := next_id d + length its\<rparr>"

definition sample_item :: "nat \<Rightarrow> string \<Rightarrow> bool \<Rightarrow> nat \<Rightarrow> item" where
  "sample_item i t c a =
     \<lparr>item_id = i, item_text = t, quantity = 1, item_unit = ''szt'', description = [],
      completed = c, added_at = a, completed_at = (if c then Some a else None),
      updated_at = None\<rparr>"

definition sample_db :: db where
  "sample_db =
     \<lparr>rows = [\<lparr>user_id = 1, cols = sample_item 1 ''Bread'' True 10\<rparr>,
              \<lparr>user_id = 2, cols = sample_item 2 ''Soap'' False 15\<rparr>,
              \<lparr>user_id = 1, cols = sample_item 3 ''Milk'' False 20\<rparr>,
              \<lparr>user_id = 1, cols = sample_item 4 ''Eggs'' False 30\<rparr>],
      next_id = 5\<rparr>"

definition sample_data :: "string \<Rightarrow> 64 word \<Rightarrow> string \<Rightarrow> item_data" where
  "sample_data t q u =
     \<lparr>d_text = Some t, d_quantity = Some q, d_unit = Some u, d_description = None,
      d_completed = None\<rparr>"

definition only_text :: "string \<Rightarrow> item_data" where
  "only_text t =
     \<lparr>d_text = Some t, d_quantity = None, d_unit = None, d_description = None,
      d_completed = None\<rparr>"

definition only_completed :: "bool \<Rightarrow> item_data" where
  "only_completed c =
     \<lparr>d_text = None, d_quantity = None, d_unit = None, d_description = None,
      d_completed = Some c\<rparr>"

definition no_quantity :: "string \<Rightarrow> string \<Rightarrow> item_data" where
  "no_quantity t u =
     \<lparr>d_text = Some t, d_quantity = None, d_unit = Some u, d_description = None,
      d_completed = None\<rparr>"

definition good_batch :: "item_data list" where
  "good_batch = [sample_data ''Tea'' 2 ''opak'', sample_data ''Rice'' 1 ''kg'']"

definition empty_storage :: "string storage" where
  "empty_storage =
     \<lparr>session_slot = None, local_slot = None, local_user = None, local_remember = None\<rparr>"

section \<open>Listing\<close>

lemma order_before_total: "\<not> order_before x y \<Longrightarrow> order_before y x"
  by (auto simp: order_before_def split: if_splits)

lemma order_before_trans: "order_before x y \<Longrightarrow> order_before y z \<Longrightarrow> order_before x z"
  by (auto simp: order_before_def split: if_splits)

lemma set_order_insert: "set (order_insert x xs) = insert x (set xs)"
  by (induction xs) auto

lemma sorted_order_insert:
  "sorted_wrt order_before xs \<Longrightarrow> sorted_wrt order_before (order_insert x xs)"
proof (induction xs)
  case Nil
  then show ?case by simp
next
  case (Cons y ys)
  show ?case
  proof (cases "order_before x y")
    case True
    have "\<forall>z\<in>set ys. order_before x z"
      using Cons.prems True order_before_trans by auto
    with True Cons.prems show ?thesis by simp
  next
    case False
    then have "order_before y x" by (rule order_before_total)
    with False Cons show ?thesis by (auto simp: set_order_insert)
  qed
qed

lemma sorted_order_by: "sorted_wrt order_before (order_by xs)"
  by (induction xs) (auto simp: sorted_order_insert)

lemma mset_order_insert: "mset (order_insert x xs) = add_mset x (mset xs)"
  by (induction xs) auto

lemma mset_order_by: "mset (order_by xs) = mset xs"
  by (induction xs) (auto simp: mset_order_insert)

text \<open>
  Claim C7. With a healthy database the GET case answers 200 with a list that holds
  exactly the caller's rows (as a multiset: each row once, no row of another user), leaves
  the table alone, and orders the list so that no completed item stands before an
  incomplete one and, among items with the same completion state, no item stands before
  one added later.
\<close>

theorem list_items_owned_and_ordered:
  "\<exists>its. get_items uid None d = (Response 200 (ItemsBody its), d) \<and>
         mset its = mset (map cols (filter (\<lambda>r. user_id r = uid) (rows d))) \<and>
         sorted_wrt (\<lambda>a b. (completed a \<longrightarrow> completed b) \<and>
                           (completed a = completed b \<longrightarrow> added_at b \<le> added_at a)) its"
proof -
  let ?its = "order_by (map cols (filter (owned_by uid) (rows d)))"
  have own: "owned_by uid = (\<lambda>r. user_id r = uid)"
    by (rule ext) (simp add: owned_by_def)
  have "sorted_wrt order_before ?its" by (rule sorted_order_by)
  then have "sorted_wrt (\<lambda>a b. (completed a \<longrightarrow> completed b) \<and>
                           (completed a = completed b \<longrightarrow> added_at b \<le> added_at a)) ?its"
    by (rule sorted_wrt_mono_rel[rotated]) (auto simp: order_before_def split: if_splits)
  moreover have "mset ?its = mset (map cols (filter (\<lambda>r. user_id r = uid) (rows d)))"
    by (simp add: mset_order_by own)
  moreover have "get_items uid None d = (Response 200 (ItemsBody ?its), d)"
    by (simp add: get_items_def)
  ultimately show ?thesis by blast
qed

theorem list_items_owned_and_ordered_witness:
  "get_items 1 None sample_db =
     (Response 200 (ItemsBody [sample_item 4 ''Eggs'' False 30, sample_item 3 ''Milk'' False 20,
                               sample_item 1 ''Bread'' True 10]), sample_db) \<and>
   (\<exists>its. get_items 1 None sample_db = (Response 200 (ItemsBody its), sample_db) \<and>
      sorted_wrt (\<lambda>a b. (completed a \<longrightarrow> completed b) \<and>
                        (completed a = completed b \<longrightarrow> added_at b \<le> added_at a)) its)"
proof -
  have "get_items 1 None sample_db =
     (Response 200 (ItemsBody [sample_item 4 ''Eggs'' False 30, sample_item 3 ''Milk'' False 20,
                               sample_item 1 ''Bread'' True 10]), sample_db)"
    by (simp add: get_items_def sample_db_def owned_by_def order_before_def sample_item_def)
  then show ?thesis
    using list_items_owned_and_ordered [of 1 sample_db] by blast
qed

section \<open>Replacing the list\<close>

lemmas eval_defs =
  validate_item_def php_trim_def trim_char_def php_empty_def validUnits_def sample_data_def
  intval_def only_text_def only_completed_def sample_db_def sample_item_def

lemma validate_items_None_iff:
  "(validate_items its = None) = list_all (\<lambda>it. validate_item it = None) its"
  by (induction its) (auto split: option.splits)

lemma validate_item_None_iff:
  "(validate_item it = None) =
     (\<not> php_empty (php_trim (coalesce (d_text it) [])) \<and>
      1 \<le> intval (coalesce (d_quantity it) 1) \<and>
      coalesce (d_unit it) [] \<in> set validUnits)"
  by (simp add: validate_item_def Let_def)

lemma insert_all_healthy:
  "insert_all uid now None k its d =
     Inr (d\<lparr>rows := rows d @ supplied_rows uid now (next_id d) its,
            next_id := next_id d + length its\<rparr>)"
  by (induction its arbitrary: k d) (simp_all add: insert_supplied_def insert_item_def)

lemma insert_all_faulty:
  "insert_all uid now f k its d = Inr d' \<Longrightarrow> insert_all uid now None k its d = Inr d'"
  by (induction its arbitrary: k d) (auto split: option.splits)

lemma replace_list_rejects:
  assumes "validate_items (coalesce (d_items dat) []) \<noteq> None"
  shows "\<exists>e. replace_list uid now f (Some dat) d = (Response 400 (Error e), d)"
  using assms by (auto simp: replace_list_def Let_def split: option.splits)

lemma replace_list_succeeds:
  assumes "validate_items (coalesce (d_items dat) []) = None"
  shows "replace_list uid now None (Some dat) d =
           (Response 200 (Message ''List replaced successfully''),
            replaced uid now (coalesce (d_items dat) []) d)"
  using assms
  by (simp add: replace_list_def Let_def insert_all_healthy delete_user_rows_def replaced_def
      owned_by_def)

lemma replace_list_all_or_nothing:
  "snd (replace_list uid now f (Some dat) d) = d \<or>
   replace_list uid now f (Some dat) d =
     (Response 200 (Message ''List replaced successfully''),
      replaced uid now (coalesce (d_items dat) []) d)"
proof (cases "insert_all uid now f 1 (coalesce (d_items dat) []) (delete_user_rows uid d)")
  case (Inl m)
  then show ?thesis
    by (simp add: replace_list_def Let_def split: option.splits)
next
  case (Inr d')
  then have "insert_all uid now None 1 (coalesce (d_items dat) []) (delete_user_rows uid d) = Inr d'"
    by (rule insert_all_faulty)
  then have "d' = replaced uid now (coalesce (d_items dat) []) d"
    by (simp add: insert_all_healthy delete_user_rows_def replaced_def owned_by_def)
  with Inr show ?thesis
    by (simp add: replace_list_def Let_def split: option.splits)
qed

lemma supplied_rows_owned:
  "filter (owned_by uid) (supplied_rows uid now n its) = supplied_rows uid now n its"
  by (induction its arbitrary: n) (simp_all add: owned_by_def)

lemma supplied_rows_not_others:
  "filter (\<lambda>r. user_id r \<noteq> uid) (supplied_rows uid now n its) = []"
  by (induction its arbitrary: n) simp_all

lemma replaced_own:
  "filter (owned_by uid) (rows (replaced uid now its d)) = supplied_rows uid now (next_id d) its"
  by (simp add: replaced_def supplied_rows_owned) (simp add: owned_by_def)

lemma replaced_others:
  "filter (\<lambda>r. user_id r \<noteq> uid) (rows (replaced uid now its d)) =
     filter (\<lambda>r. user_id r \<noteq> uid) (rows d)"
  by (simp add: replaced_def supplied_rows_not_others)

text \<open>
  What the replace branch does guarantee, for the record: a batch with an item that fails
  the check is answered 400 with the table as before (\<open>replace_list_rejects\<close>), and under
  any database failure the table afterwards is the old one or the replaced one
  (\<open>replace_list_all_or_nothing\<close>).
\<close>

text \<open>
  Claim C1, at the input where the code departs from it. The caller sends
  \<^verbatim>\<open>{"items":[{"text":"Tea","unit":"opak"}]}\<close>, an item with no quantity. The check reads
  \<^verbatim>\<open>intval($item['quantity'] ?? 1)\<close> and lets the item pass; the insert binds
  \<^verbatim>\<open>intval($item['quantity'])\<close>, which is 0. The answer is the success message and the
  caller's list is now one row with quantity 0.
\<close>

theorem replace_list_stores_quantity_zero:
  "validate_item (no_quantity ''Tea'' ''opak'') = None \<and>
   replace_list 1 100 None (Some \<lparr>d_items = Some [no_quantity ''Tea'' ''opak'']\<rparr>) sample_db =
     (Response 200 (Message ''List replaced successfully''),
      sample_db\<lparr>rows :=
        [\<lparr>user_id = 2, cols = sample_item 2 ''Soap'' False 15\<rparr>,
         \<lparr>user_id = 1,
          cols = \<lparr>item_id = 5, item_text = ''Tea'', quantity = 0, item_unit = ''opak'',
                  description = [], completed = False, added_at = 100,
                  completed_at = None, updated_at = None\<rparr>\<rparr>],
        next_id := 6\<rparr>)"
  by (simp add: replace_list_def insert_supplied_def insert_item_def delete_user_rows_def
      owned_by_def no_quantity_def intval_def eval_defs)

text \<open>
  Claim C9. A replace request whose \<^verbatim>\<open>items\<close> key is missing or holds the empty list passes
  the check (there is nothing to check), is answered with the success message on a healthy
  database, and leaves the table that clear-list leaves: none of the caller's rows, every
  row of the other users.
\<close>

theorem replace_with_no_items_clears:
  "validate_items [] = None \<and>
   replace_list uid now None (Some \<lparr>d_items = None\<rparr>) d =
     (Response 200 (Message ''List replaced successfully''), delete_user_rows uid d) \<and>
   replace_list uid now None (Some \<lparr>d_items = Some []\<rparr>) d =
     (Response 200 (Message ''List replaced successfully''), delete_user_rows uid d) \<and>
   snd (delete_items uid None None (Some ''clear'') d) = delete_user_rows uid d \<and>
   filter (owned_by uid) (rows (delete_user_rows uid d)) = [] \<and>
   filter (\<lambda>r. \<not> owned_by uid r) (rows (delete_user_rows uid d)) =
     filter (\<lambda>r. \<not> owned_by uid r) (rows d)"
  by (simp add: replace_list_def delete_items_def delete_bulk_def delete_user_rows_def)

section \<open>Adding an item\<close>

lemma find_append_fresh:
  "\<forall>x\<in>set xs. \<not> P x \<Longrightarrow> P y \<Longrightarrow> find P (xs @ [y]) = Some y"
  by (induction xs) auto

lemma select_inserted:
  assumes "db_ok d"
  shows "select_by_id (next_id d) (insert_item uid now t q u dsc c d) =
           Some \<lparr>item_id = next_id d, item_text = t, quantity = q, item_unit = u,
                 description = dsc, completed = c, added_at = now,
                 completed_at = None, updated_at = None\<rparr>"
proof -
  have "\<forall>r\<in>set (rows d). \<not> item_id (cols r) = next_id d"
    using assms by (auto simp: db_ok_def list_all_iff)
  then show ?thesis
    by (simp add: select_by_id_def insert_item_def find_append_fresh)
qed

text \<open>What the POST case does guarantee: a created record has a quantity of at least 1 and
  a text that PHP does not take for empty, and an empty text is always answered 400.\<close>

lemma add_item_created_quantity:
  "add_item uid now f req d = (Response 201 (ItemBody it), d') \<Longrightarrow> db_ok d \<Longrightarrow>
     1 \<le> quantity it \<and> \<not> php_empty (item_text it)"
  by (auto simp: add_item_def Let_def select_inserted caught_pdo_def
      split: option.splits if_splits)

lemma add_item_created_unit:
  "add_item uid now f (Some dat) d = (Response 201 (ItemBody it), d') \<Longrightarrow> db_ok d \<Longrightarrow>
     item_unit it = coalesce (d_unit dat) ''szt''"
  by (auto simp: add_item_def Let_def select_inserted caught_pdo_def
      split: option.splits if_splits)

lemma add_item_empty_text:
  "php_trim (coalesce (d_text dat) []) = [] \<Longrightarrow>
     add_item uid now f (Some dat) d = (Response 400 (Error ''Item text is required''), d)"
  by (simp add: add_item_def Let_def php_empty_def)

text \<open>
  Claim C3, at the input where the code departs from it. The POST case never looks at the
  unit: the request \<^verbatim>\<open>{"text":"Milk","quantity":2,"unit":"foo"}\<close> passes both checks and is
  answered 201 with a record whose unit is \<^verbatim>\<open>foo\<close>, which is none of the seven units.
\<close>

theorem add_item_keeps_unknown_unit:
  "add_item 1 100 None (Some (sample_data ''Milk'' 2 ''foo'')) sample_db =
     (Response 201
        (ItemBody \<lparr>item_id = 5, item_text = ''Milk'', quantity = 2, item_unit = ''foo'',
                   description = [], completed = False, added_at = 100,
                   completed_at = None, updated_at = None\<rparr>),
      insert_item 1 100 ''Milk'' 2 ''foo'' [] False sample_db) \<and>
   ''foo'' \<notin> set validUnits"
  by (simp add: add_item_def select_by_id_def insert_item_def Let_def eval_defs)

text \<open>
  Claim C10 as stated fails: a text of blanks only, and the text \<^verbatim>\<open>"0"\<close>, are not empty, yet
  the request is answered 400 and nothing is created.
\<close>

theorem add_item_blank_or_zero_text_rejected:
  "add_item 1 100 None (Some (only_text '' '')) sample_db =
     (Response 400 (Error ''Item text is required''), sample_db) \<and>
   add_item 1 100 None (Some (only_text ''0'')) sample_db =
     (Response 400 (Error ''Item text is required''), sample_db)"
  by (simp add: add_item_def eval_defs)

text \<open>
  Claim C10, amended. On a well-formed table and a healthy database, a request whose text
  is, after trimming, neither empty nor \<^verbatim>\<open>"0"\<close>, and that leaves out quantity, unit,
  description and completed, is answered 201 with the created record: the trimmed text,
  quantity 1, unit \<^verbatim>\<open>szt\<close>, empty description, not completed; that row is appended to the table.
\<close>

theorem add_item_defaults:
  assumes "db_ok d" and "d_text dat = Some t"
    and "php_trim t \<noteq> []" and "php_trim t \<noteq> ''0''"
    and "d_quantity dat = None" and "d_unit dat = None"
    and "d_description dat = None" and "d_completed dat = None"
  shows "add_item uid now None (Some dat) d =
           (Response 201
              (ItemBody \<lparr>item_id = next_id d, item_text = php_trim t, quantity = 1,
                         item_unit = ''szt'', description = [], completed = False,
                         added_at = now, completed_at = None, updated_at = None\<rparr>),
            insert_item uid now (php_trim t) 1 ''szt'' [] False d)"
  using assms
  by (simp add: add_item_def Let_def php_empty_def intval_def select_inserted)
    (simp add: php_trim_def)

theorem add_item_defaults_witness:
  "db_ok sample_db \<and> php_trim '' Milk '' = ''Milk'' \<and>
   add_item 1 100 None (Some (only_text '' Milk '')) sample_db =
     (Response 201
        (ItemBody \<lparr>item_id = 5, item_text = ''Milk'', quantity = 1, item_unit = ''szt'',
                   description = [], completed = False, added_at = 100,
                   completed_at = None, updated_at = None\<rparr>),
      insert_item 1 100 ''Milk'' 1 ''szt'' [] False sample_db)"
proof -
  have ok: "db_ok sample_db" by (simp add: db_ok_def eval_defs)
  have tr: "php_trim '' Milk '' = ''Milk''" by (simp add: eval_defs)
  have n: "next_id sample_db = 5" by (simp add: sample_db_def)
  show ?thesis
    using ok tr n add_item_defaults [of sample_db "only_text '' Milk ''" "'' Milk ''" 1 100]
    by (simp add: only_text_def)
qed

section \<open>Updating an item\<close>

text \<open>
  The PUT case of \<^verbatim>\<open>items.php\<close> does what claims C4 and C5 say: 404 for a row that is not
  the caller's, 400 for an empty text or a quantity below 1, the table untouched on every
  answer other than 200, and \<^verbatim>\<open>completed_at\<close> set or cleared together with \<^verbatim>\<open>completed\<close>.
\<close>

lemma update_item_not_found:
  "i \<noteq> 0 \<Longrightarrow> \<not> list_ex (is_own_row i uid) (rows d) \<Longrightarrow>
     update_item uid now None (Some i) (Some dat) d = (Response 404 (Error ''Item not found''), d)"
  by (simp add: update_item_def)

lemma update_item_invalid:
  "i \<noteq> 0 \<Longrightarrow> list_ex (is_own_row i uid) (rows d) \<Longrightarrow>
     (\<exists>t. d_text dat = Some t \<and> php_trim t = []) \<or> (\<exists>q. d_quantity dat = Some q \<and> intval q < 1) \<Longrightarrow>
     status (fst (update_item uid now None (Some i) (Some dat) d)) = 400 \<and>
     snd (update_item uid now None (Some i) (Some dat) d) = d"
  by (auto simp: update_item_def update_fields_def php_empty_def split: option.splits)

lemma update_item_failure_unchanged:
  "status (fst (update_item uid now f idp req d)) \<noteq> 200 \<Longrightarrow>
     snd (update_item uid now f idp req d) = d"
  by (auto simp: update_item_def update_fields_def caught_pdo_def split: option.splits if_splits)

lemma apply_update_updated_at: "updated_at (apply_update now dat it) = Some now"
  by (simp add: apply_update_def Let_def split: option.splits)

lemma update_item_toggle:
  "i \<noteq> 0 \<Longrightarrow> list_ex (is_own_row i uid) (rows d) \<Longrightarrow>
     update_item uid now None (Some i) (Some (only_completed c)) d =
       (Response 200 (Message ''Item updated successfully''),
        d\<lparr>rows := map (\<lambda>r. if is_row i r
                            then r\<lparr>cols := (cols r)\<lparr>completed := c,
                                      completed_at := (if c then Some now else None),
                                      updated_at := Some now\<rparr>\<rparr>
                            else r) (rows d)\<rparr>)"
  by (simp add: update_item_def update_fields_def only_completed_def no_fields_def
      apply_update_def)

text \<open>The single-item branch of the second handler never writes \<^verbatim>\<open>completed_at\<close>.\<close>

lemma set_columns_completed_at: "completed_at (set_columns now dat it) = completed_at it"
  by (simp add: set_columns_def Let_def split: option.splits)

text \<open>
  Claim C4, at the inputs where the second handler departs from it. The owner of item 3
  sends \<^verbatim>\<open>{"completed":true}\<close>: the answer is 200, the row is completed and its
  \<^verbatim>\<open>updated_at\<close> is refreshed, but its \<^verbatim>\<open>completed_at\<close> is still \<^verbatim>\<open>NULL\<close>. The owner of the
  completed item 1 sends \<^verbatim>\<open>{"completed":false}\<close>: the row is no longer completed, but its
  \<^verbatim>\<open>completed_at\<close> is not cleared.
\<close>

theorem put_single_leaves_completed_at:
  "put_single 1 100 None 3 (only_completed True) sample_db =
     (Response 200 (Message ''Item updated successfully''),
      sample_db\<lparr>rows :=
        [\<lparr>user_id = 1, cols = sample_item 1 ''Bread'' True 10\<rparr>,
         \<lparr>user_id = 2, cols = sample_item 2 ''Soap'' False 15\<rparr>,
         \<lparr>user_id = 1, cols = (sample_item 3 ''Milk'' False 20)
             \<lparr>completed := True, completed_at := None, updated_at := Some 100\<rparr>\<rparr>,
         \<lparr>user_id = 1, cols = sample_item 4 ''Eggs'' False 30\<rparr>]\<rparr>) \<and>
   put_single 1 100 None 1 (only_completed False) sample_db =
     (Response 200 (Message ''Item updated successfully''),
      sample_db\<lparr>rows :=
        [\<lparr>user_id = 1, cols = (sample_item 1 ''Bread'' True 10)
             \<lparr>completed := False, completed_at := Some 10, updated_at := Some 100\<rparr>\<rparr>,
         \<lparr>user_id = 2, cols = sample_item 2 ''Soap'' False 15\<rparr>,
         \<lparr>user_id = 1, cols = sample_item 3 ''Milk'' False 20\<rparr>,
         \<lparr>user_id = 1, cols = sample_item 4 ''Eggs'' False 30\<rparr>]\<rparr>)"
  by (simp add: put_single_def no_fields_def is_own_row_def set_columns_def Let_def eval_defs)

text \<open>
  Claim C5, at the input where the second handler departs from it. The owner of item 3
  sends \<^verbatim>\<open>{"text":"","quantity":0,"unit":"kg"}\<close>: the answer is 200 and the row now has an
  empty text and quantity 0.
\<close>

theorem put_single_accepts_empty_text:
  "put_single 1 100 None 3 (sample_data [] 0 ''kg'') sample_db =
     (Response 200 (Message ''Item updated successfully''),
      sample_db\<lparr>rows :=
        [\<lparr>user_id = 1, cols = sample_item 1 ''Bread'' True 10\<rparr>,
         \<lparr>user_id = 2, cols = sample_item 2 ''Soap'' False 15\<rparr>,
         \<lparr>user_id = 1, cols = (sample_item 3 ''Milk'' False 20)
             \<lparr>item_text := [], quantity := 0, item_unit := ''kg'', updated_at := Some 100\<rparr>\<rparr>,
         \<lparr>user_id = 1, cols = sample_item 4 ''Eggs'' False 30\<rparr>]\<rparr>)"
  by (simp add: put_single_def no_fields_def is_own_row_def set_columns_def Let_def eval_defs)

section \<open>Database failures\<close>

text \<open>The handlers of \<^verbatim>\<open>items.php\<close> and the register script answer the same whatever the
  exception's message is.\<close>

lemma register_hides_message:
  "register hash new_id is_post (Some (k, m)) req users sess =
   register hash new_id is_post (Some (k, m')) req users sess"
  by (simp add: register_def caught_pdo_def Let_def split: option.splits)

lemma items_php_hides_message:
  "add_item uid now (Some (k, m)) req d = add_item uid now (Some (k, m')) req d"
  "get_items uid (Some (k, m)) d = get_items uid (Some (k, m')) d"
  "update_item uid now (Some (k, m)) idp req d = update_item uid now (Some (k, m')) idp req d"
  "delete_items uid (Some (k, m)) idp action d = delete_items uid (Some (k, m')) idp action d"
  by (simp_all add: add_item_def get_items_def update_item_def update_fields_def
      delete_items_def delete_single_def delete_bulk_def caught_pdo_def Let_def
      split: option.splits)

text \<open>
  Claim C2, at the inputs where the code departs from it. When the \<^verbatim>\<open>SELECT\<close> of
  \<^verbatim>\<open>login.php\<close> throws, the body of the 500 answer is \<^verbatim>\<open>Database error: \<close> followed by the
  exception's message; when the \<^verbatim>\<open>DELETE\<close> of a replace throws, it is
  \<^verbatim>\<open>Failed to replace list: \<close> followed by the message.
\<close>

theorem database_message_reaches_client:
  "login verify True (Some (0, m))
      (Some \<lparr>c_username = Some ''alice'', c_password = Some ''Secret1!''\<rparr>) users sess =
     (Response 500 (Error (''Database error: '' @ m)), sess) \<and>
   replace_list uid now (Some (0, m)) (Some \<lparr>d_items = Some good_batch\<rparr>) d =
     (Response 500 (Error (''Failed to replace list: '' @ m)), d)"
  by (simp add: login_def replace_list_def replace_failed_def good_batch_def eval_defs)

section \<open>Password strength\<close>

lemmas strength_defs =
  checkStrength_def score_def complaints_def requirements_of_def strength_level_def
  has_lowercase_def has_uppercase_def has_numbers_def has_special_def special_class_def
  js_def

text \<open>
  Claim C6 as stated fails in its example: \<^verbatim>\<open>aaaaaaaa\<close> scores 1, and a score below 2 is
  the level \<^verbatim>\<open>very-weak\<close>, not \<^verbatim>\<open>weak\<close>.
\<close>

theorem aaaaaaaa_is_not_weak:
  "strength (checkStrength (js ''aaaaaaaa'')) \<noteq> js ''weak''"
  by (simp add: strength_defs)

text \<open>
  Claim C6, amended. The score is the number of the four requirements met (length at
  least 8, both letter cases, a digit, a character of the special class) and is at most 4;
  the level is \<^verbatim>\<open>very-weak\<close> below 2, \<^verbatim>\<open>weak\<close> below 3, \<^verbatim>\<open>medium\<close> below 4, \<^verbatim>\<open>strong\<close> at 4;
  there is one complaint per requirement missed, and the feedback is the complaints joined
  by \<^verbatim>\<open>". "\<close>, or the praise when there is none. \<^verbatim>\<open>aaaaaaaa\<close> scores 1 and is
  \<^verbatim>\<open>very-weak\<close>; \<^verbatim>\<open>Aa1!aaaa\<close> scores 4 and is \<^verbatim>\<open>strong\<close>; the empty password scores 0 and
  its feedback starts with the minimum-length complaint.
\<close>

theorem checkStrength_scores_and_levels:
  "score p = of_bool (8 \<le> length p) + of_bool (has_lowercase p \<and> has_uppercase p) +
             of_bool (has_numbers p) + of_bool (has_special p) \<and>
   score p \<le> 4 \<and>
   strength (checkStrength p) =
     (if score p < 2 then js ''very-weak'' else if score p < 3 then js ''weak''
      else if score p < 4 then js ''medium'' else js ''strong'') \<and>
   length (complaints p) + score p = 4 \<and>
   feedback (checkStrength p) =
     (if score p = 4 then msg_strong else join (js ''. '') (complaints p)) \<and>
   score (js ''aaaaaaaa'') = 1 \<and>
   strength (checkStrength (js ''aaaaaaaa'')) = js ''very-weak'' \<and>
   score (js ''Aa1!aaaa'') = 4 \<and>
   strength (checkStrength (js ''Aa1!aaaa'')) = js ''strong'' \<and>
   score [] = 0 \<and>
   feedback (checkStrength []) =
     msg_length @ js ''. '' @ msg_case @ js ''. '' @ msg_digits @ js ''. '' @ msg_special"
proof -
  have general:
    "score p = of_bool (8 \<le> length p) + of_bool (has_lowercase p \<and> has_uppercase p) +
               of_bool (has_numbers p) + of_bool (has_special p)"
    "score p \<le> 4"
    "length (complaints p) + score p = 4"
    by (simp_all add: score_def complaints_def requirements_of_def)
  have level:
    "strength (checkStrength p) =
       (if score p < 2 then js ''very-weak'' else if score p < 3 then js ''weak''
        else if score p < 4 then js ''medium'' else js ''strong'')"
    by (simp add: checkStrength_def strength_level_def)
  have fb:
    "feedback (checkStrength p) =
       (if score p = 4 then msg_strong else join (js ''. '') (complaints p))"
    using general(3) by (auto simp: checkStrength_def)
  have ex1: "score (js ''aaaaaaaa'') = 1"
    "strength (checkStrength (js ''aaaaaaaa'')) = js ''very-weak''"
    by (simp_all add: strength_defs)
  have ex2: "score (js ''Aa1!aaaa'') = 4"
    "strength (checkStrength (js ''Aa1!aaaa'')) = js ''strong''"
    by (simp_all add: strength_defs)
  have ex3: "score [] = 0"
    "feedback (checkStrength []) =
       msg_length @ js ''. '' @ msg_case @ js ''. '' @ msg_digits @ js ''. '' @ msg_special"
    by (simp_all add: strength_defs)
  show ?thesis
    using general level fb ex1 ex2 ex3 by (intro conjI)
qed

section \<open>Session cache\<close>

text \<open>
  Claim C8. The entry \<^verbatim>\<open>getSession\<close> finds decides: with no entry the check is false;
  for an entry with the remember flag it is true exactly when fewer than
  \<open>7 * 24 * 60 * 60 * 1000\<close> milliseconds have passed since the entry's timestamp; for an
  entry without the flag it is true at any time. In particular, after \<^verbatim>\<open>saveSession\<close> with
  the flag (and no entry in \<^verbatim>\<open>sessionStorage\<close>) the session is valid for less than seven
  days, and after \<^verbatim>\<open>saveSession\<close> without the flag it is valid whatever the clock says.
\<close>

theorem session_valid_rule:
  "(getSession st = None \<longrightarrow> \<not> isSessionValid now st) \<and>
   (getSession st = Some s \<and> rememberMe s \<longrightarrow>
      (isSessionValid now st \<longleftrightarrow> now - timestamp s < 7 * 24 * 60 * 60 * 1000)) \<and>
   (getSession st = Some s \<and> \<not> rememberMe s \<longrightarrow> isSessionValid now st) \<and>
   (session_slot st = None \<longrightarrow>
      (isSessionValid now (saveSession t u True st) \<longleftrightarrow> now - t < 7 * 24 * 60 * 60 * 1000)) \<and>
   isSessionValid now (saveSession t u False st)"
  by (simp add: isSessionValid_def getSession_def saveSession_def oneWeek_def)

theorem session_valid_rule_witness:
  "getSession empty_storage = None \<and> \<not> isSessionValid 5 empty_storage \<and>
   session_slot empty_storage = None \<and>
   getSession (saveSession 1000 ''alice'' True empty_storage) =
     Some \<lparr>user = ''alice'', timestamp = 1000, rememberMe = True\<rparr> \<and>
   isSessionValid 604800999 (saveSession 1000 ''alice'' True empty_storage) \<and>
   \<not> isSessionValid 604801000 (saveSession 1000 ''alice'' True empty_storage) \<and>
   getSession (saveSession 1000 ''alice'' False empty_storage) =
     Some \<lparr>user = ''alice'', timestamp = 1000, rememberMe = False\<rparr> \<and>
   isSessionValid 999999999999 (saveSession 1000 ''alice'' False empty_storage)"
proof -
  have g0: "getSession empty_storage = None"
    by (simp add: getSession_def empty_storage_def)
  have g1: "getSession (saveSession 1000 ''alice'' True empty_storage) =
     Some \<lparr>user = ''alice'', timestamp = 1000, rememberMe = True\<rparr>"
    by (simp add: getSession_def saveSession_def empty_storage_def)
  have g2: "getSession (saveSession 1000 ''alice'' False empty_storage) =
     Some \<lparr>user = ''alice'', timestamp = 1000, rememberMe = False\<rparr>"
    by (simp add: getSession_def saveSession_def empty_storage_def)
  have s0: "session_slot empty_storage = None"
    by (simp add: empty_storage_def)
  show ?thesis
    using g0 g1 g2 s0
      session_valid_rule [where st = empty_storage and now = 5]
      session_valid_rule [where st = "saveSession 1000 ''alice'' True empty_storage" and
         s = "\<lparr>user = ''alice'', timestamp = 1000, rememberMe = True\<rparr>" and now = 604800999]
      session_valid_rule [where st = "saveSession 1000 ''alice'' True empty_storage" and
         s = "\<lparr>user = ''alice'', timestamp = 1000, rememberMe = True\<rparr>" and now = 604801000]
      session_valid_rule [where st = "saveSession 1000 ''alice'' False empty_storage" and
         s = "\<lparr>user = ''alice'', timestamp = 1000, rememberMe = False\<rparr>" and
         now = 999999999999]
    by simp
qed

end
